theory Spec2Isabelle
  imports Main "HOL-Library.Sublist"
begin

section \<open>Supplements screen: the unscheduled-item filter\<close>

text \<open>
  \<^verbatim>\<open>SupplementType\<close> is imported from a module that is not part of the sources; the
  only field \<^verbatim>\<open>computeUnscheduled\<close> reads is \<^verbatim>\<open>id: number\<close>. The remaining fields are
  kept as one opaque component, so that two items with the same id can still differ.
  Identifiers are integers (the data model's "unique integer identifier"); on them the
  \<^verbatim>\<open>SameValueZero\<close> comparison of a JavaScript \<^verbatim>\<open>Set\<close> is plain equality.
\<close>

record 'a SupplementType =
  id_s :: int
  details :: 'a

text \<open>A reminder, as far as the function's parameter type sees it:
  \<^verbatim>\<open>{ selectedSupplements?: number[] }\<close>. An absent field is \<open>None\<close>.\<close>

record reminder =
  selectedSupplements :: "int list option"

text \<open>\<^verbatim>\<open>r.selectedSupplements ?? []\<close>\<close>

definition selectedOrEmpty :: "reminder \<Rightarrow> int list" where
  "selectedOrEmpty r = (case selectedSupplements r of None \<Rightarrow> [] | Some ids \<Rightarrow> ids)"

text \<open>
  The two nested \<^verbatim>\<open>for ... of\<close> loops that fill the set \<^verbatim>\<open>inAnyReminder\<close>, starting
  from the empty set: the outer loop runs over the reminders, the inner one adds every id
  of the current reminder.
\<close>

definition addIds :: "int list \<Rightarrow> int set \<Rightarrow> int set" where
  "addIds ids acc = fold insert ids acc"

definition inAnyReminder :: "reminder list \<Rightarrow> int set" where
  "inAnyReminder reminders = fold (\<lambda>r acc. addIds (selectedOrEmpty r) acc) reminders {}"

text \<open>\<^verbatim>\<open>supps.filter((s) => !inAnyReminder.has(s.id))\<close>\<close>

definition computeUnscheduled :: "'a SupplementType list \<Rightarrow> reminder list \<Rightarrow> 'a SupplementType list" where
  "computeUnscheduled supps reminders = filter (\<lambda>s. id_s s \<notin> inAnyReminder reminders) supps"

text \<open>
  The specification's words, for comparison with the loops: the union of all groupings'
  referenced-id sets, an absent set counting as empty.
\<close>

definition referencedIds :: "reminder \<Rightarrow> int set" where
  "referencedIds r = (case selectedSupplements r of None \<Rightarrow> {} | Some ids \<Rightarrow> set ids)"

definition unionOfReferenced :: "reminder list \<Rightarrow> int set" where
  "unionOfReferenced reminders = \<Union> (referencedIds ` set reminders)"

text \<open>One reminder is obtained from another by filling an absent id list with the empty
  list, or is left as it is.\<close>

definition absentFilled :: "reminder \<Rightarrow> reminder \<Rightarrow> bool" where
  "absentFilled r r' \<longleftrightarrow>
     r' = r \<or> (selectedSupplements r = None \<and> r' = r\<lparr>selectedSupplements := Some []\<rparr>)"

section \<open>Commerce main page: title resolution and scroll target\<close>

text \<open>
  A JavaScript string is a sequence of UTF-16 code units; the regular expressions of
  \<^verbatim>\<open>norm\<close> carry no \<^verbatim>\<open>u\<close> flag and work on code units. Code units are natural numbers
  here; \<open>str\<close> turns an ASCII literal into its code units. The only non-ASCII unit in the
  literals of the source is 8217 (U+2019, the right single quotation mark of
  \<^verbatim>\<open>This Month's Picks\<close> and of the first regular expression).
\<close>

type_synonym jsstring = "nat list"

definition str :: "string \<Rightarrow> jsstring" where
  "str s = map of_char s"

text \<open>The constant \<^verbatim>\<open>TAGS\<close>, in the order of the source.\<close>

record tag =
  title :: jsstring
  slug :: jsstring

definition TAGS :: "tag list" where
  "TAGS =
    [\<lparr>title = str ''Best Sellers'', slug = str ''best-sellers''\<rparr>,
     \<lparr>title = str ''Limited-Time Deals'', slug = str ''limited-time-deals''\<rparr>,
     \<lparr>title = str ''Bundles for Your Goals'', slug = str ''bundles-for-your-goals''\<rparr>,
     \<lparr>title = str ''Top Rated by Customers'', slug = str ''top-rated-by-customers''\<rparr>,
     \<lparr>title = str ''This Month'' @ [8217] @ str ''s Picks'', slug = str ''this-months-picks''\<rparr>,
     \<lparr>title = str ''Just Arrived'', slug = str ''just-arrived''\<rparr>]"

text \<open>The object literal \<^verbatim>\<open>SHOWCASE_ALIAS\<close>: its own properties, in the order of the
  source (the keys are pairwise different).\<close>

definition SHOWCASE_ALIAS :: "(jsstring \<times> jsstring) list" where
  "SHOWCASE_ALIAS =
    [(str ''limited-time deals'', str ''limited-time-deals''),
     (str ''top rated products'', str ''top-rated-by-customers''),
     (str ''top rated by customers'', str ''top-rated-by-customers''),
     (str ''best sellers'', str ''best-sellers''),
     (str ''bundles for your goals'', str ''bundles-for-your-goals''),
     (str ''this months picks'', str ''this-months-picks''),
     (str ''just arrived'', str ''just-arrived'')]"

text \<open>
  What \<^verbatim>\<open>titleToSlug\<close> can return at run time. The declared type is
  \<^verbatim>\<open>string | undefined\<close>, but \<^verbatim>\<open>SHOWCASE_ALIAS[n]\<close> is a property read on an ordinary
  object: a key that is not an own property is looked up in \<^verbatim>\<open>Object.prototype\<close>, whose
  members are built-in objects. \<open>JObject k\<close> is the built-in object stored there under the
  name \<open>k\<close>.
\<close>

datatype jsvalue = JString jsstring | JObject jsstring | JUndefined

text \<open>The property names of \<^verbatim>\<open>Object.prototype\<close> (ECMA-262, with its Annex B).\<close>

definition objectPrototypeKeys :: "jsstring list" where
  "objectPrototypeKeys =
    [str ''constructor'', str ''hasOwnProperty'', str ''isPrototypeOf'',
     str ''propertyIsEnumerable'', str ''toLocaleString'', str ''toString'', str ''valueOf'',
     str ''__proto__'', str ''__defineGetter__'', str ''__defineSetter__'',
     str ''__lookupGetter__'', str ''__lookupSetter__'']"

text \<open>\<^verbatim>\<open>obj[k]\<close> for an object literal \<open>obj\<close> with string values: the own property if there
  is one, else the inherited one, else \<^verbatim>\<open>undefined\<close>.\<close>

definition getProperty :: "(jsstring \<times> jsstring) list \<Rightarrow> jsstring \<Rightarrow> jsvalue" where
  "getProperty obj k =
     (case map_of obj k of
        Some v \<Rightarrow> JString v
      | None \<Rightarrow> if k \<in> set objectPrototypeKeys then JObject k else JUndefined)"

text \<open>The truthiness test of \<^verbatim>\<open>if (SHOWCASE_ALIAS[n])\<close>.\<close>

fun truthy :: "jsvalue \<Rightarrow> bool" where
  "truthy (JString s) = (s \<noteq> [])"
| "truthy (JObject k) = True"
| "truthy JUndefined = False"

text \<open>
  \<^verbatim>\<open>s.toLowerCase()\<close> is a built-in of the engine. On a string made of ASCII code units and
  U+2019 it maps \<^verbatim>\<open>A\<close>..\<^verbatim>\<open>Z\<close> to \<^verbatim>\<open>a\<close>..\<^verbatim>\<open>z\<close> and leaves every other unit as it is.
  On any other string it follows the Unicode case tables (with context-dependent and
  length-changing mappings), which are not part of the sources: there the result is that of
  the parameter \<open>uni\<close>, about which nothing is assumed.
\<close>

definition asciiLower :: "nat \<Rightarrow> nat" where
  "asciiLower c = (if 65 \<le> c \<and> c \<le> 90 then c + 32 else c)"

definition toLowerCase :: "(jsstring \<Rightarrow> jsstring) \<Rightarrow> jsstring \<Rightarrow> jsstring" where
  "toLowerCase uni s =
     (if list_all (\<lambda>c. c < 128 \<or> c = 8217) s then map asciiLower s else uni s)"

text \<open>\<^verbatim>\<open>.replace(/['U+2019]/g, "")\<close>: every apostrophe (39) and every U+2019 is deleted.\<close>

definition stripApostrophes :: "jsstring \<Rightarrow> jsstring" where
  "stripApostrophes s = filter (\<lambda>c. c \<noteq> 39 \<and> c \<noteq> 8217) s"

text \<open>\<^verbatim>\<open>.replace(/[^a-z0-9]+/g, " ")\<close>: every maximal run of code units outside
  \<^verbatim>\<open>a-z0-9\<close> becomes one space (32).\<close>

definition isAlnum :: "nat \<Rightarrow> bool" where
  "isAlnum c \<longleftrightarrow> (97 \<le> c \<and> c \<le> 122) \<or> (48 \<le> c \<and> c \<le> 57)"

function collapse :: "jsstring \<Rightarrow> jsstring" where
  "collapse [] = []"
| "collapse (c # cs) =
     (if isAlnum c then c # collapse cs
      else 32 # collapse (dropWhile (\<lambda>d. \<not> isAlnum d) cs))"
  by pat_completeness auto
termination
  by (relation "measure length") (auto simp: length_dropWhile_le less_Suc_eq_le)

text \<open>\<^verbatim>\<open>.trim()\<close> removes the white space and line terminators of ECMA-262 from both
  ends.\<close>

definition isWhiteSpace :: "nat \<Rightarrow> bool" where
  "isWhiteSpace c \<longleftrightarrow>
     c \<in> {9, 10, 11, 12, 13, 32, 160, 5760, 8232, 8233, 8239, 8287, 12288, 65279}
     \<or> (8192 \<le> c \<and> c \<le> 8202)"

definition trim :: "jsstring \<Rightarrow> jsstring" where
  "trim s = rev (dropWhile isWhiteSpace (rev (dropWhile isWhiteSpace s)))"

definition norm :: "(jsstring \<Rightarrow> jsstring) \<Rightarrow> jsstring \<Rightarrow> jsstring" where
  "norm uni s = trim (collapse (stripApostrophes (toLowerCase uni s)))"

text \<open>
  \<^verbatim>\<open>titleToSlug\<close>: the alias table first, then \<^verbatim>\<open>TAGS.find\<close> on the normalised titles;
  \<^verbatim>\<open>hit?.slug\<close> is \<^verbatim>\<open>undefined\<close> when nothing is found.
\<close>

definition titleToSlug :: "(jsstring \<Rightarrow> jsstring) \<Rightarrow> jsstring \<Rightarrow> jsvalue" where
  "titleToSlug uni ttl =
     (let n = norm uni ttl in
      if truthy (getProperty SHOWCASE_ALIAS n) then getProperty SHOWCASE_ALIAS n
      else (case find (\<lambda>t. norm uni (title t) = n) TAGS of
              None \<Rightarrow> JUndefined
            | Some hit \<Rightarrow> JString (slug hit)))"

text \<open>
  The rows of the list. \<open>Banner\<close> and \<open>Categories\<close> are the two rows whose key and type
  are fixed; a showcase row carries its key, title, slug and the \<^verbatim>\<open>timed\<close> flag.
\<close>

datatype Row = Banner | Categories | Showcase jsstring jsstring jsstring bool

definition showcaseRow :: "tag \<Rightarrow> Row" where
  "showcaseRow t =
     Showcase (str ''tag-'' @ slug t) (title t) (slug t) (slug t = str ''limited-time-deals'')"

definition sections :: "Row list" where
  "sections = [Banner, Categories] @ map showcaseRow TAGS"

text \<open>
  \<^verbatim>\<open>indexBySlug\<close>: \<^verbatim>\<open>sections.forEach((row, i) => ...)\<close> stores the index of every showcase
  row under its slug in a \<^verbatim>\<open>Map\<close>, a later row overwriting an earlier one with the same
  slug; \<^verbatim>\<open>indexBySlug.get(slug)\<close> is the application of the resulting map.
\<close>

fun setIfShowcase :: "nat \<times> Row \<Rightarrow> (jsstring \<rightharpoonup> nat) \<Rightarrow> (jsstring \<rightharpoonup> nat)" where
  "setIfShowcase (i, Showcase k t s tm) m = m(s \<mapsto> i)"
| "setIfShowcase (i, _) m = m"

definition indexBySlug :: "Row list \<Rightarrow> (jsstring \<rightharpoonup> nat)" where
  "indexBySlug secs = fold setIfShowcase (enumerate 0 secs) Map.empty"

text \<open>
  The shape of a lookup key: lower-case letters, digits and spaces only, no two spaces in
  a row, no space at either end.
\<close>

definition keyShape :: "jsstring \<Rightarrow> bool" where
  "keyShape k \<longleftrightarrow>
     list_all (\<lambda>c. isAlnum c \<or> c = 32) k \<and>
     \<not> sublist [32, 32] k \<and> \<not> prefix [32] k \<and> \<not> suffix [32] k"

lemmas commerce_defs =
  titleToSlug_def TAGS_def SHOWCASE_ALIAS_def getProperty_def objectPrototypeKeys_def
  norm_def str_def toLowerCase_def asciiLower_def stripApostrophes_def isAlnum_def trim_def
  isWhiteSpace_def

section \<open>The unscheduled-item filter: proofs\<close>

subsection \<open>The loops compute the union\<close>

lemma addIds_union: "addIds ids acc = acc \<union> set ids"
  unfolding addIds_def by (induction ids arbitrary: acc) auto

lemma set_selectedOrEmpty: "set (selectedOrEmpty r) = referencedIds r"
  by (simp add: selectedOrEmpty_def referencedIds_def split: option.split)

lemma fold_addIds_union:
  "fold (\<lambda>r acc. addIds (selectedOrEmpty r) acc) rs acc = acc \<union> unionOfReferenced rs"
proof (induction rs arbitrary: acc)
  case Nil
  show ?case by (simp add: unionOfReferenced_def)
next
  case (Cons r rs)
  have "fold (\<lambda>r acc. addIds (selectedOrEmpty r) acc) (r # rs) acc =
        fold (\<lambda>r acc. addIds (selectedOrEmpty r) acc) rs (addIds (selectedOrEmpty r) acc)"
    by simp
  also have "\<dots> = addIds (selectedOrEmpty r) acc \<union> unionOfReferenced rs"
    by (rule Cons.IH)
  also have "\<dots> = acc \<union> unionOfReferenced (r # rs)"
    by (simp add: addIds_union set_selectedOrEmpty unionOfReferenced_def Un_assoc)
  finally show ?case .
qed

lemma inAnyReminder_union: "inAnyReminder rs = unionOfReferenced rs"
  by (simp add: inAnyReminder_def fold_addIds_union)

lemma unionOfReferenced_Cons:
  "unionOfReferenced (r # rs) = referencedIds r \<union> unionOfReferenced rs"
  by (simp add: unionOfReferenced_def)

lemma absentFilled_referencedIds: "absentFilled r r' \<Longrightarrow> referencedIds r' = referencedIds r"
  by (auto simp: absentFilled_def referencedIds_def)

lemma absentFilled_union:
  "list_all2 absentFilled rs rs' \<Longrightarrow> unionOfReferenced rs' = unionOfReferenced rs"
  by (induction rs rs' rule: list_all2_induct)
     (simp_all add: unionOfReferenced_Cons absentFilled_referencedIds)

lemma update_dangling_union:
  "referencedIds r' = insert d (referencedIds (rs ! k)) \<Longrightarrow> k < length rs \<Longrightarrow>
     unionOfReferenced (rs[k := r']) - {d} = unionOfReferenced rs - {d}"
proof (induction rs arbitrary: k)
  case Nil
  then show ?case by simp
next
  case (Cons r rs)
  show ?case
  proof (cases k)
    case 0
    with Cons.prems show ?thesis by (auto simp: unionOfReferenced_Cons)
  next
    case (Suc j)
    with Cons.prems have "unionOfReferenced (rs[j := r']) - {d} = unionOfReferenced rs - {d}"
      by (intro Cons.IH) simp_all
    with Suc show ?thesis by (auto simp: unionOfReferenced_Cons)
  qed
qed

subsection \<open>Properties of the filter\<close>

text \<open>
  C1. For every item sequence and every sequence of reminders, an item appears in the
  result of \<open>computeUnscheduled\<close> if and only if it is an item of the input whose id is not
  a member of the union of all reminders' referenced-id sets.
\<close>

theorem computeUnscheduled_iff_unreferenced:
  "s \<in> set (computeUnscheduled supps reminders) \<longleftrightarrow>
     s \<in> set supps \<and> id_s s \<notin> unionOfReferenced reminders"
  by (simp add: computeUnscheduled_def inAnyReminder_union)

text \<open>
  C2. The result of \<open>computeUnscheduled\<close> is a subsequence of the item sequence: it is
  obtained by deleting elements, so its elements occur in the input and keep their
  relative order.
\<close>

theorem computeUnscheduled_subseq:
  "subseq (computeUnscheduled supps reminders) supps"
  by (simp add: computeUnscheduled_def)

text \<open>
  C8. A reminder whose id list is absent is treated exactly as one with an empty id list:
  replacing any of the absent \<open>selectedSupplements\<close> fields by the empty list (and
  leaving every other reminder as it is) does not change the result of
  \<open>computeUnscheduled\<close>.
\<close>

theorem computeUnscheduled_absent_as_empty:
  "list_all2 absentFilled reminders reminders' \<Longrightarrow>
     computeUnscheduled supps reminders' = computeUnscheduled supps reminders"
  by (simp add: computeUnscheduled_def inAnyReminder_union absentFilled_union)

theorem computeUnscheduled_absent_as_empty_witness:
  "list_all2 absentFilled
     [\<lparr>selectedSupplements = None\<rparr>, \<lparr>selectedSupplements = Some [2]\<rparr>, \<lparr>selectedSupplements = None\<rparr>]
     [\<lparr>selectedSupplements = Some []\<rparr>, \<lparr>selectedSupplements = Some [2]\<rparr>, \<lparr>selectedSupplements = None\<rparr>]
   \<and> computeUnscheduled
       [\<lparr>id_s = 1, details = ''a''\<rparr>, \<lparr>id_s = 2, details = ''b''\<rparr>, \<lparr>id_s = 3, details = ''c''\<rparr>]
       [\<lparr>selectedSupplements = Some []\<rparr>, \<lparr>selectedSupplements = Some [2]\<rparr>, \<lparr>selectedSupplements = None\<rparr>]
     = computeUnscheduled
       [\<lparr>id_s = 1, details = ''a''\<rparr>, \<lparr>id_s = 2, details = ''b''\<rparr>, \<lparr>id_s = 3, details = ''c''\<rparr>]
       [\<lparr>selectedSupplements = None\<rparr>, \<lparr>selectedSupplements = Some [2]\<rparr>, \<lparr>selectedSupplements = None\<rparr>]
   \<and> computeUnscheduled
       [\<lparr>id_s = 1, details = ''a''\<rparr>, \<lparr>id_s = 2, details = ''b''\<rparr>, \<lparr>id_s = 3, details = ''c''\<rparr>]
       [\<lparr>selectedSupplements = None\<rparr>, \<lparr>selectedSupplements = Some [2]\<rparr>, \<lparr>selectedSupplements = None\<rparr>]
     = [\<lparr>id_s = 1, details = ''a''\<rparr>, \<lparr>id_s = 3, details = ''c''\<rparr>]"
proof -
  have h: "list_all2 absentFilled
     [\<lparr>selectedSupplements = None\<rparr>, \<lparr>selectedSupplements = Some [2]\<rparr>, \<lparr>selectedSupplements = None\<rparr>]
     [\<lparr>selectedSupplements = Some []\<rparr>, \<lparr>selectedSupplements = Some [2]\<rparr>, \<lparr>selectedSupplements = None\<rparr>]"
    by (simp add: absentFilled_def)
  have v: "computeUnscheduled
       [\<lparr>id_s = 1, details = ''a''\<rparr>, \<lparr>id_s = 2, details = ''b''\<rparr>, \<lparr>id_s = 3, details = ''c''\<rparr>]
       [\<lparr>selectedSupplements = None\<rparr>, \<lparr>selectedSupplements = Some [2]\<rparr>, \<lparr>selectedSupplements = None\<rparr>]
     = [\<lparr>id_s = 1, details = ''a''\<rparr>, \<lparr>id_s = 3, details = ''c''\<rparr>]"
    by (simp add: computeUnscheduled_def inAnyReminder_def addIds_def selectedOrEmpty_def)
  from computeUnscheduled_absent_as_empty [OF h,
      of "[\<lparr>id_s = 1, details = ''a''\<rparr>, \<lparr>id_s = 2, details = ''b''\<rparr>, \<lparr>id_s = 3, details = ''c''\<rparr>]"] h v
  show ?thesis by simp
qed

text \<open>
  C9. Dangling references are ignored: if the reminder at any position is replaced by one
  that references one more id \<open>d\<close>, and \<open>d\<close> is the id of no item, the result of
  \<open>computeUnscheduled\<close> does not change.
\<close>

theorem computeUnscheduled_dangling_ignored:
  assumes "d \<notin> id_s ` set supps"
      and "referencedIds r' = insert d (referencedIds (reminders ! k))"
  shows "computeUnscheduled supps (reminders[k := r']) = computeUnscheduled supps reminders"
proof (cases "k < length reminders")
  case True
  from update_dangling_union [OF assms(2) True]
  have eq: "unionOfReferenced (reminders[k := r']) - {d} = unionOfReferenced reminders - {d}" .
  have "id_s s \<notin> unionOfReferenced (reminders[k := r']) \<longleftrightarrow> id_s s \<notin> unionOfReferenced reminders"
    if "s \<in> set supps" for s
  proof -
    from that assms(1) have "id_s s \<noteq> d" by auto
    with eq show ?thesis by blast
  qed
  then show ?thesis
    unfolding computeUnscheduled_def inAnyReminder_union by (intro filter_cong) simp_all
next
  case False
  then show ?thesis by (simp add: list_update_beyond)
qed

theorem computeUnscheduled_dangling_ignored_witness:
  "(99::int) \<notin> id_s ` set [\<lparr>id_s = 1, details = ''a''\<rparr>, \<lparr>id_s = 2, details = ''b''\<rparr>, \<lparr>id_s = 3, details = ''c''\<rparr>]
   \<and> referencedIds \<lparr>selectedSupplements = Some [2, 99]\<rparr>
       = insert 99 (referencedIds ([\<lparr>selectedSupplements = None\<rparr>, \<lparr>selectedSupplements = Some [2]\<rparr>] ! 1))
   \<and> computeUnscheduled
       [\<lparr>id_s = 1, details = ''a''\<rparr>, \<lparr>id_s = 2, details = ''b''\<rparr>, \<lparr>id_s = 3, details = ''c''\<rparr>]
       ([\<lparr>selectedSupplements = None\<rparr>, \<lparr>selectedSupplements = Some [2]\<rparr>][1 := \<lparr>selectedSupplements = Some [2, 99]\<rparr>])
     = computeUnscheduled
       [\<lparr>id_s = 1, details = ''a''\<rparr>, \<lparr>id_s = 2, details = ''b''\<rparr>, \<lparr>id_s = 3, details = ''c''\<rparr>]
       [\<lparr>selectedSupplements = None\<rparr>, \<lparr>selectedSupplements = Some [2]\<rparr>]"
proof -
  have h1: "(99::int) \<notin> id_s ` set [\<lparr>id_s = 1, details = ''a''\<rparr>, \<lparr>id_s = 2, details = ''b''\<rparr>, \<lparr>id_s = 3, details = ''c''\<rparr>]"
    by simp
  have h2: "referencedIds \<lparr>selectedSupplements = Some [2, 99]\<rparr>
       = insert 99 (referencedIds ([\<lparr>selectedSupplements = None\<rparr>, \<lparr>selectedSupplements = Some [2]\<rparr>] ! 1))"
    by (auto simp: referencedIds_def)
  from computeUnscheduled_dangling_ignored [OF h1 h2] h1 h2 show ?thesis by blast
qed

text \<open>
  C10. With no reminders at all nothing is scheduled: \<open>computeUnscheduled\<close> returns the
  item sequence itself.
\<close>

theorem computeUnscheduled_no_reminders:
  "computeUnscheduled supps [] = supps"
  by (simp add: computeUnscheduled_def inAnyReminder_def)

section \<open>Title resolution and scroll target: proofs\<close>

subsection \<open>The shape of a normalised title\<close>

lemma collapse_chars: "c \<in> set (collapse s) \<Longrightarrow> isAlnum c \<or> c = 32"
  by (induction s rule: collapse.induct) (auto split: if_splits)

lemma collapse_after_run:
  "\<not> prefix [32] (collapse (dropWhile (\<lambda>d. \<not> isAlnum d) cs))"
proof (cases "dropWhile (\<lambda>d. \<not> isAlnum d) cs")
  case Nil
  show ?thesis unfolding Nil by simp
next
  case (Cons d ds)
  have "dropWhile (\<lambda>d. \<not> isAlnum d) cs \<noteq> []" unfolding Cons by simp
  then have "\<not> \<not> isAlnum (hd (dropWhile (\<lambda>d. \<not> isAlnum d) cs))" by (rule hd_dropWhile)
  then have "isAlnum d" unfolding Cons by simp
  moreover from this have "d \<noteq> 32" by (auto simp: isAlnum_def)
  ultimately show ?thesis unfolding Cons by simp
qed

lemma collapse_single_spaces: "\<not> sublist [32, 32] (collapse s)"
proof (induction s rule: collapse.induct)
  case 1
  show ?case by simp
next
  case (2 c cs)
  show ?case
  proof (cases "isAlnum c")
    case True
    then have "c \<noteq> 32" by (auto simp: isAlnum_def)
    with True 2 show ?thesis by (simp add: sublist_Cons_right)
  next
    case False
    with 2 collapse_after_run [of cs] show ?thesis by (simp add: sublist_Cons_right)
  qed
qed

lemma trim_chars: "set (trim s) \<subseteq> set s"
  unfolding trim_def by (auto dest!: set_dropWhileD)

lemma trim_sublist: "sublist (trim s) s"
proof -
  have "suffix (dropWhile isWhiteSpace (rev (dropWhile isWhiteSpace s))) (rev (dropWhile isWhiteSpace s))"
    by (rule suffix_dropWhile)
  then have "prefix (trim s) (dropWhile isWhiteSpace s)"
    unfolding trim_def by (simp add: suffix_to_prefix)
  moreover have "suffix (dropWhile isWhiteSpace s) s"
    by (rule suffix_dropWhile)
  ultimately show ?thesis
    by (meson prefix_imp_sublist suffix_imp_sublist sublist_order.order_trans)
qed

lemma dropWhile_isWhiteSpace_head: "\<not> prefix [32] (dropWhile isWhiteSpace s)"
proof
  assume "prefix [32] (dropWhile isWhiteSpace s)"
  then obtain r where r: "dropWhile isWhiteSpace s = 32 # r"
    by (auto simp: prefix_def)
  have "dropWhile isWhiteSpace s \<noteq> []" unfolding r by simp
  then have "\<not> isWhiteSpace (hd (dropWhile isWhiteSpace s))" by (rule hd_dropWhile)
  then show False unfolding r by (simp add: isWhiteSpace_def)
qed

lemma trim_no_trailing: "\<not> suffix [32] (trim s)"
proof
  assume "suffix [32] (trim s)"
  then have "prefix [32] (dropWhile isWhiteSpace (rev (dropWhile isWhiteSpace s)))"
    by (simp add: suffix_to_prefix trim_def)
  with dropWhile_isWhiteSpace_head show False by blast
qed

lemma trim_no_leading: "\<not> prefix [32] (trim s)"
proof
  assume "prefix [32] (trim s)"
  then have "suffix [32] (dropWhile isWhiteSpace (rev (dropWhile isWhiteSpace s)))"
    by (simp add: suffix_to_prefix trim_def)
  moreover have "suffix (dropWhile isWhiteSpace (rev (dropWhile isWhiteSpace s)))
      (rev (dropWhile isWhiteSpace s))"
    by (rule suffix_dropWhile)
  ultimately have "suffix [32] (rev (dropWhile isWhiteSpace s))"
    by (rule suffix_order.order_trans)
  then have "prefix [32] (dropWhile isWhiteSpace s)"
    by (simp add: suffix_to_prefix)
  with dropWhile_isWhiteSpace_head show False by blast
qed

lemma norm_chars: "c \<in> set (norm uni s) \<Longrightarrow> isAlnum c \<or> c = 32"
  unfolding norm_def using trim_chars collapse_chars by blast

lemma norm_keyShape: "keyShape (norm uni s)"
proof -
  have "list_all (\<lambda>c. isAlnum c \<or> c = 32) (norm uni s)"
    using norm_chars by (auto simp: list_all_iff)
  moreover have "\<not> sublist [32, 32] (norm uni s)"
    unfolding norm_def
    using collapse_single_spaces trim_sublist sublist_order.order_trans by blast
  ultimately show ?thesis
    by (simp add: keyShape_def) (simp add: norm_def trim_no_leading trim_no_trailing)
qed

lemma norm_no_hyphen: "45 \<notin> set (norm uni s)"
proof
  assume "45 \<in> set (norm uni s)"
  then have "isAlnum 45 \<or> (45::nat) = 32" by (rule norm_chars)
  then show False by (simp add: isAlnum_def)
qed

lemma norm_not_hyphenated_key: "norm uni s \<noteq> str ''limited-time deals''"
proof
  assume "norm uni s = str ''limited-time deals''"
  moreover have "45 \<in> set (str ''limited-time deals'')" by (simp add: str_def)
  ultimately show False using norm_no_hyphen [of uni s] by simp
qed

lemma alias_limited_time_key:
  "map_of SHOWCASE_ALIAS n = Some (str ''limited-time-deals'') \<Longrightarrow> n = str ''limited-time deals''"
  by (simp add: SHOWCASE_ALIAS_def str_def split: if_splits)

lemma tags_limited_time_hit:
  "find P TAGS = Some hit \<Longrightarrow> slug hit = str ''limited-time-deals'' \<Longrightarrow>
     hit = \<lparr>title = str ''Limited-Time Deals'', slug = str ''limited-time-deals''\<rparr>"
  by (auto simp: TAGS_def str_def split: if_splits)

lemma norm_prototype_key:
  assumes "norm uni s \<in> set objectPrototypeKeys"
  shows "norm uni s = str ''constructor''"
proof -
  have "list_all (\<lambda>c. isAlnum c \<or> c = 32) (norm uni s)"
    using norm_keyShape [of uni s] by (simp add: keyShape_def)
  with assms show ?thesis
    by (auto simp: objectPrototypeKeys_def str_def isAlnum_def)
qed

lemma titleToSlug_no_match_otherwise:
  assumes "map_of SHOWCASE_ALIAS (norm uni s) = None"
      and "find (\<lambda>t. norm uni (title t) = norm uni s) TAGS = None"
      and "norm uni s \<noteq> str ''constructor''"
  shows "titleToSlug uni s = JUndefined"
proof -
  from assms(3) have "norm uni s \<notin> set objectPrototypeKeys"
    using norm_prototype_key by blast
  with assms(1) have "getProperty SHOWCASE_ALIAS (norm uni s) = JUndefined"
    by (simp add: getProperty_def)
  with assms(2) show ?thesis by (simp add: titleToSlug_def)
qed

lemma titleToSlug_unknown_title:
  "titleToSlug uni (str ''Flash Sale Extravaganza'') = JUndefined"
  by (simp add: commerce_defs)

subsection \<open>Resolution and index lookup\<close>

text \<open>
  C3. Round trip: for every entry of \<open>TAGS\<close>, \<open>titleToSlug\<close> applied to the entry's title
  returns a slug, and the lookup of that slug in \<open>indexBySlug sections\<close> returns an index
  of \<open>sections\<close> at which the row built from that very entry stands. The rows of
  \<open>sections\<close> are pairwise different, so this is the only such index.
\<close>

theorem title_round_trip:
  "distinct sections \<and>
   (\<forall>t \<in> set TAGS. \<exists>sl j.
      titleToSlug uni (title t) = JString sl \<and> indexBySlug sections sl = Some j \<and>
      j < length sections \<and> sections ! j = showcaseRow t)"
  by (simp add: commerce_defs indexBySlug_def sections_def showcaseRow_def)

theorem title_round_trip_witness:
  "\<lparr>title = str ''This Month'' @ [8217] @ str ''s Picks'', slug = str ''this-months-picks''\<rparr>
     \<in> set TAGS \<and>
   (\<exists>sl j.
      titleToSlug (\<lambda>s. s) (str ''This Month'' @ [8217] @ str ''s Picks'') = JString sl \<and>
      indexBySlug sections sl = Some j \<and> j < length sections \<and>
      sections ! j =
        showcaseRow
          \<lparr>title = str ''This Month'' @ [8217] @ str ''s Picks'',
           slug = str ''this-months-picks''\<rparr>)"
proof -
  have h: "\<lparr>title = str ''This Month'' @ [8217] @ str ''s Picks'',
      slug = str ''this-months-picks''\<rparr> \<in> set TAGS"
    by (simp add: TAGS_def)
  from title_round_trip [of "\<lambda>s. s", THEN conjunct2, THEN bspec, OF h] h
  show ?thesis by simp
qed

text \<open>
  C4. The three spellings \<^verbatim>\<open>Limited-Time Deals\<close>, \<^verbatim>\<open>limited time deals\<close> and
  \<^verbatim>\<open>LIMITED TIME DEALS\<close> all make \<open>titleToSlug\<close> return the slug
  \<^verbatim>\<open>limited-time-deals\<close>.
\<close>

theorem resolve_limited_time_deals:
  "titleToSlug uni (str ''Limited-Time Deals'') = JString (str ''limited-time-deals'') \<and>
   titleToSlug uni (str ''limited time deals'') = JString (str ''limited-time-deals'') \<and>
   titleToSlug uni (str ''LIMITED TIME DEALS'') = JString (str ''limited-time-deals'')"
  by (simp add: commerce_defs)

text \<open>
  C5. In \<open>sections\<close> (banner, categories, then the six showcase rows in the order of
  \<open>TAGS\<close>) the index stored for the slug \<^verbatim>\<open>limited-time-deals\<close> is 3, counting from
  zero, and the row at that index is the one built from the \<^verbatim>\<open>Limited-Time Deals\<close> entry.
\<close>

theorem index_limited_time_deals:
  "indexBySlug sections (str ''limited-time-deals'') = Some 3 \<and>
   take 3 sections =
     [Banner, Categories, showcaseRow \<lparr>title = str ''Best Sellers'', slug = str ''best-sellers''\<rparr>] \<and>
   sections ! 3 =
     showcaseRow \<lparr>title = str ''Limited-Time Deals'', slug = str ''limited-time-deals''\<rparr>"
  by (simp add: indexBySlug_def sections_def showcaseRow_def TAGS_def str_def)

text \<open>
  C6. For every input string the normalised form contains no hyphen (code unit 45): it
  consists of lower-case letters and digits separated by single spaces. So it never equals
  the alias key \<^verbatim>\<open>limited-time deals\<close>, and whenever \<open>titleToSlug\<close> returns
  \<^verbatim>\<open>limited-time-deals\<close> the alias lookup has failed and the result comes from the
  \<^verbatim>\<open>Limited-Time Deals\<close> entry found in \<open>TAGS\<close>.
\<close>

theorem limited_time_deals_only_by_fallback:
  "45 \<notin> set (norm uni s) \<and> keyShape (norm uni s) \<and>
   norm uni s \<noteq> str ''limited-time deals'' \<and>
   (titleToSlug uni s = JString (str ''limited-time-deals'') \<longrightarrow>
      \<not> truthy (getProperty SHOWCASE_ALIAS (norm uni s)) \<and>
      find (\<lambda>t. norm uni (title t) = norm uni s) TAGS =
        Some \<lparr>title = str ''Limited-Time Deals'', slug = str ''limited-time-deals''\<rparr>)"
proof -
  have "\<not> truthy (getProperty SHOWCASE_ALIAS (norm uni s)) \<and>
      find (\<lambda>t. norm uni (title t) = norm uni s) TAGS =
        Some \<lparr>title = str ''Limited-Time Deals'', slug = str ''limited-time-deals''\<rparr>"
    if r: "titleToSlug uni s = JString (str ''limited-time-deals'')"
  proof -
    have nt: "\<not> truthy (getProperty SHOWCASE_ALIAS (norm uni s))"
    proof
      assume "truthy (getProperty SHOWCASE_ALIAS (norm uni s))"
      with r have "getProperty SHOWCASE_ALIAS (norm uni s) = JString (str ''limited-time-deals'')"
        by (simp add: titleToSlug_def Let_def)
      then have "map_of SHOWCASE_ALIAS (norm uni s) = Some (str ''limited-time-deals'')"
        by (simp add: getProperty_def split: option.splits if_splits)
      then have "norm uni s = str ''limited-time deals''" by (rule alias_limited_time_key)
      with norm_not_hyphenated_key show False by blast
    qed
    with r obtain hit where
      "find (\<lambda>t. norm uni (title t) = norm uni s) TAGS = Some hit"
      "slug hit = str ''limited-time-deals''"
      by (auto simp: titleToSlug_def Let_def split: option.splits)
    with nt show ?thesis using tags_limited_time_hit by blast
  qed
  with norm_no_hyphen norm_keyShape norm_not_hyphenated_key show ?thesis by blast
qed

theorem limited_time_deals_only_by_fallback_witness:
  "titleToSlug (\<lambda>s. s) (str ''LIMITED TIME DEALS'') = JString (str ''limited-time-deals'') \<and>
   \<not> truthy (getProperty SHOWCASE_ALIAS (norm (\<lambda>s. s) (str ''LIMITED TIME DEALS''))) \<and>
   find (\<lambda>t. norm (\<lambda>s. s) (title t) = norm (\<lambda>s. s) (str ''LIMITED TIME DEALS'')) TAGS =
     Some \<lparr>title = str ''Limited-Time Deals'', slug = str ''limited-time-deals''\<rparr> \<and>
   45 \<notin> set (norm (\<lambda>s. s) (str ''LIMITED TIME DEALS'')) \<and>
   keyShape (norm (\<lambda>s. s) (str ''LIMITED TIME DEALS''))"
proof -
  have h: "titleToSlug (\<lambda>s. s) (str ''LIMITED TIME DEALS'') = JString (str ''limited-time-deals'')"
    by (simp add: commerce_defs)
  from limited_time_deals_only_by_fallback [of "\<lambda>s. s" "str ''LIMITED TIME DEALS''"] h
  show ?thesis by blast
qed

text \<open>
  C7. The title \<^verbatim>\<open>constructor\<close> matches no own key of the alias table and no normalised
  title of \<open>TAGS\<close>, yet \<open>titleToSlug\<close> does not return \<^verbatim>\<open>undefined\<close> for it: the property
  read reaches \<^verbatim>\<open>Object.prototype.constructor\<close>, a truthy built-in object, and returns
  it.
\<close>

theorem titleToSlug_constructor:
  "map_of SHOWCASE_ALIAS (norm uni (str ''constructor'')) = None \<and>
   find (\<lambda>t. norm uni (title t) = norm uni (str ''constructor'')) TAGS = None \<and>
   titleToSlug uni (str ''constructor'') = JObject (str ''constructor'') \<and>
   titleToSlug uni (str ''constructor'') \<noteq> JUndefined"
  by (simp add: commerce_defs)

end
